theory Spec2Isabelle
  imports Main "HOL-Library.AList"
begin

section \<open>The audit middleware's API mapping (auditmiddleware/\_api.py)\<close>

text \<open>
  A shallow embedding of \<^verbatim>\<open>auditmiddleware/_api.py\<close>: the compiler of the resource
  configuration (\<^verbatim>\<open>_put_hier\<close>, \<^verbatim>\<open>_parse_resources\<close>) and the per-request path walker
  and event builder (\<^verbatim>\<open>create_event\<close>, \<^verbatim>\<open>_build_event\<close>, \<^verbatim>\<open>_create_event\<close>,
  \<^verbatim>\<open>_get_action\<close>, \<^verbatim>\<open>_get_custom_action\<close>, \<^verbatim>\<open>_strip_url_prefix\<close>,
  \<^verbatim>\<open>_build_target_service_resource\<close>).

  Conventions.
  \<^item> A Python name with a leading underscore loses it (\<open>_put_hier\<close> is \<open>put_hier\<close>);
    \<open>_create_event\<close>, which would clash with the public \<open>create_event\<close>, is
    \<open>priv_create_event\<close>.
  \<^item> A Python dict is an association list in iteration order, read with \<open>map_of\<close> and
    written with \<open>AList.update\<close>.
  \<^item> Python's \<open>None\<close> is \<open>None\<close> of an option type; a value is truthy when it is
    neither \<open>None\<close> nor empty.
  \<^item> A raised exception is \<open>Inl\<close> of the result; the three exception classes that the
    code can raise by itself are the constructors of \<open>error\<close>.
  \<^item> The configuration and the request and response views are typed as the data model
    types them: \<open>singleton\<close> is a boolean, \<open>type_uri\<close> a string, \<open>custom_actions\<close> a
    mapping from strings to strings, \<open>children\<close> a mapping of resources, a JSON body an
    object. A key that the code never reads is not represented.
\<close>

subsection \<open>Python strings\<close>

datatype error = TypeError | AttributeError | ValueError

text \<open>\<open>s.find(c, start)\<close> for \<open>start \<ge> 0\<close>: the lowest index at or after \<open>start\<close>
  that holds \<open>c\<close>, or \<open>-1\<close>.\<close>

fun find_from :: "char \<Rightarrow> string \<Rightarrow> nat \<Rightarrow> int" where
  "find_from c [] i = - 1"
| "find_from c (x # xs) i = (if x = c then int i else find_from c xs (Suc i))"

definition py_find :: "string \<Rightarrow> char \<Rightarrow> int \<Rightarrow> int" where
  "py_find s c start = find_from c (drop (nat start) s) (nat start)"

text \<open>\<open>s[i:j]\<close> and \<open>s[i:]\<close> for indices that are not negative.\<close>

definition py_slice :: "string \<Rightarrow> int \<Rightarrow> int \<Rightarrow> string" where
  "py_slice s i j = take (nat j - nat i) (drop (nat i) s)"

definition py_slice_from :: "string \<Rightarrow> int \<Rightarrow> string" where
  "py_slice_from s i = drop (nat i) s"

text \<open>\<open>s.startswith(p)\<close> and \<open>s.endswith('/')\<close>.\<close>

definition startswith :: "string \<Rightarrow> string \<Rightarrow> bool" where
  "startswith s p = (take (length p) s = p)"

definition endswith_slash :: "string \<Rightarrow> bool" where
  "endswith_slash s = (s \<noteq> [] \<and> last s = CHR ''/'')"

text \<open>\<open>action.replace('*', token)\<close>: every \<open>*\<close> of the template becomes the token.\<close>

definition replace_star :: "string \<Rightarrow> string \<Rightarrow> string" where
  "replace_star template token =
     concat (map (\<lambda>c. if c = CHR ''*'' then token else [c]) template)"

text \<open>\<open>str(n)\<close> of an integer.\<close>

function str_nat :: "nat \<Rightarrow> string" where
  "str_nat n =
     (if n < 10 then [char_of (48 + n)] else str_nat (n div 10) @ [char_of (48 + n mod 10)])"
  by pat_completeness auto
termination
  by (relation "measure (\<lambda>n. n)") auto

declare str_nat.simps [simp del]

definition str_int :: "int \<Rightarrow> string" where
  "str_int i = (if i < 0 then CHR ''-'' # str_nat (nat (- i)) else str_nat (nat i))"

text \<open>Truthiness of an optional string, and \<open>a or b\<close> on two of them.\<close>

definition truthy :: "string option \<Rightarrow> bool" where
  "truthy v = (case v of None \<Rightarrow> False | Some s \<Rightarrow> s \<noteq> [])"

definition py_or :: "string option \<Rightarrow> string option \<Rightarrow> string option" where
  "py_or a b = (if truthy a then a else b)"

subsection \<open>The compiled grammar and the raw configuration\<close>

text \<open>
  A node of the compiled grammar is what \<open>isinstance\<close> tells apart in \<open>_build_event\<close>:
  a plain dict of names, or a \<open>ResourceSpec\<close> named tuple.
\<close>

datatype node =
    Dict "(string \<times> node) list"
  | ResourceSpec (type_uri: string) (el_type_uri: "string option") (singleton: bool)
      (custom_actions: "(string \<times> string) list") (children: "(string \<times> node) list")

text \<open>
  The value of one resource name in the raw configuration: the keys that
  \<open>_parse_resources\<close> reads with \<open>spec.get\<close>, each absent (\<open>None\<close>) or given. The value
  itself may be missing (YAML null), hence \<open>raw_spec option\<close> in a configuration.
\<close>

datatype raw_spec =
  RawSpec (cfg_singleton: "bool option") (cfg_type_uri: "string option")
    (cfg_custom_actions: "(string \<times> string) list option")
    (cfg_children: "(string \<times> raw_spec option) list option")

text \<open>Attribute access on a grammar node: a dict has none of the tuple's fields.\<close>

definition attr_type_uri :: "node \<Rightarrow> error + string" where
  "attr_type_uri n = (case n of Dict _ \<Rightarrow> Inl AttributeError | ResourceSpec t _ _ _ _ \<Rightarrow> Inr t)"

definition attr_el_type_uri :: "node \<Rightarrow> error + string option" where
  "attr_el_type_uri n =
     (case n of Dict _ \<Rightarrow> Inl AttributeError | ResourceSpec _ e _ _ _ \<Rightarrow> Inr e)"

definition attr_singleton :: "node \<Rightarrow> error + bool" where
  "attr_singleton n =
     (case n of Dict _ \<Rightarrow> Inl AttributeError | ResourceSpec _ _ s _ _ \<Rightarrow> Inr s)"

definition attr_custom_actions :: "node \<Rightarrow> error + (string \<times> string) list" where
  "attr_custom_actions n =
     (case n of Dict _ \<Rightarrow> Inl AttributeError | ResourceSpec _ _ _ ca _ \<Rightarrow> Inr ca)"

subsection \<open>\<open>_put_hier\<close>\<close>

lemma py_find_rest_shorter:
  "0 \<le> py_find s c 0 \<Longrightarrow> length s - nat (py_find s c 0 + 1) < length s"
  by (cases s) (auto simp: py_find_def)

text \<open>
  The dict is mutated in place in the source; here the updated dict is returned. When the
  name stored under \<open>segment\<close> is a \<open>ResourceSpec\<close>, the source goes on with the tuple as
  \<open>dct\<close>, and the next subscript on it (\<open>dct[segment]\<close> or an item assignment) raises
  \<open>TypeError\<close>.
\<close>

function put_hier ::
  "(string \<times> node) list \<Rightarrow> string \<Rightarrow> node \<Rightarrow> error + (string \<times> node) list" where
  "put_hier dct hier_name object =
     (let pos = py_find hier_name CHR ''/'' 0 in
      if pos \<ge> 0 then
        (let segment = py_slice hier_name 0 pos;
             rest = py_slice_from hier_name (pos + 1);
             dct1 = (if map_of dct segment = None
                     then AList.update segment (Dict []) dct else dct)
         in case map_of dct1 segment of
              Some (Dict sub) \<Rightarrow>
                (case put_hier sub rest object of
                   Inl e \<Rightarrow> Inl e
                 | Inr sub' \<Rightarrow> Inr (AList.update segment (Dict sub') dct1))
            | _ \<Rightarrow> Inl TypeError)
      else Inr (AList.update hier_name object dct))"
  by pat_completeness auto
termination
  by (relation "measure (\<lambda>(d, n, ob). length n)")
    (auto simp: py_slice_from_def py_find_rest_shorter)

declare put_hier.simps [simp del]

subsection \<open>\<open>_parse_resources\<close>\<close>

lemma cfg_children_smaller:
  "cfg_children x = Some c \<Longrightarrow>
     size_list (size_prod (\<lambda>_. 0) (size_option size)) c < size x"
  by (cases x) auto

text \<open>
  The \<open>for\<close> loop over \<open>res_dict.iteritems()\<close>, with \<open>result\<close> as its accumulator. The
  recursive call for the children starts from an empty \<open>result\<close>, as the source does.
\<close>

function parse_resources_loop ::
  "string \<Rightarrow> string option \<Rightarrow> (string \<times> raw_spec option) list \<Rightarrow>
     (string \<times> node) list \<Rightarrow> error + (string \<times> node) list" where
  "parse_resources_loop service_type parentTypeURI [] result = Inr result"
| "parse_resources_loop service_type parentTypeURI ((name, s) # more) result =
     (let spec = (case s of None \<Rightarrow> RawSpec None None None None | Some d \<Rightarrow> d);
          pfx = (case parentTypeURI of
                   None \<Rightarrow> service_type
                 | Some p \<Rightarrow> if p \<noteq> [] then p else service_type);
          singleton = (case cfg_singleton spec of Some b \<Rightarrow> b | None \<Rightarrow> False);
          type_uri = (case cfg_type_uri spec of Some t \<Rightarrow> t | None \<Rightarrow> pfx @ ''/'' @ name);
          el_type_uri = (if \<not> singleton then Some (type_uri @ ''/'' @ butlast name) else None)
      in case parse_resources_loop service_type (Some type_uri)
                (case cfg_children spec of Some c \<Rightarrow> c | None \<Rightarrow> []) [] of
           Inl e \<Rightarrow> Inl e
         | Inr ch \<Rightarrow>
            (case put_hier result name
                    (ResourceSpec type_uri el_type_uri singleton
                       (case cfg_custom_actions spec of Some ca \<Rightarrow> ca | None \<Rightarrow> []) ch) of
               Inl e \<Rightarrow> Inl e
             | Inr result' \<Rightarrow> parse_resources_loop service_type parentTypeURI more result'))"
  by pat_completeness auto
termination
  by (relation "measure (\<lambda>(svc, p, cfg, r).
          size_list (size_prod (\<lambda>_. 0) (size_option size)) cfg)")
    (auto split: option.splits dest: cfg_children_smaller)

definition parse_resources ::
  "string \<Rightarrow> (string \<times> raw_spec option) list \<Rightarrow> string option \<Rightarrow>
     error + (string \<times> node) list" where
  "parse_resources service_type res_dict parentTypeURI =
     parse_resources_loop service_type parentTypeURI res_dict []"

subsection \<open>Requests, responses and events\<close>

datatype json_value =
    JNull | JBool bool | JNum int | JStr string
  | JArr "json_value list" | JObj "(string \<times> json_value) list"

text \<open>
  The request as the code reads it. \<open>req_json\<close> (\<open>request.json\<close>) is the lazily parsed body: reading it raises
  (\<open>Inl\<close>) or gives the parsed object (\<open>Inr\<close>).
\<close>

record request =
  req_method :: string
  req_path :: string
  req_path_qs :: string
  req_path_url :: string
  req_client_addr :: "string option"
  req_user_agent :: "string option"
  req_environ :: "(string \<times> string) list"
  req_json :: "error + (string \<times> json_value) list"

record response =
  status_int :: int
  resp_json :: "error + (string \<times> json_value) list"

text \<open>
  The CADF objects of the pycadf library are records of what the code passes to their
  constructors. \<open>payload.get(k)\<close> is \<open>py_get\<close>: a missing key reads as \<open>JNull\<close>, which is
  Python's \<open>None\<close>. \<open>id_value\<close> is an optional string as such a value.
\<close>

definition id_value :: "string option \<Rightarrow> json_value" where
  "id_value v = (case v of None \<Rightarrow> JNull | Some s \<Rightarrow> JStr s)"

definition py_get :: "(string \<times> json_value) list \<Rightarrow> string \<Rightarrow> json_value" where
  "py_get payload k = (case map_of payload k of None \<Rightarrow> JNull | Some v \<Rightarrow> v)"

record cadf_host =
  host_address :: "string option"
  host_agent :: "string option"

record keystone_credential =
  cred_token :: string
  cred_identity_status :: string

record client_resource =
  cr_typeURI :: string
  cr_id :: string
  cr_name :: string
  cr_host :: cadf_host
  cr_credential :: keystone_credential
  cr_project_id :: string

record cadf_reason =
  reasonType :: string
  reasonCode :: string

record cadf_resource =
  rsrc_id :: json_value
  rsrc_typeURI :: "string option"
  rsrc_name :: json_value
  rsrc_addresses :: "string list"

record event =
  ev_id :: string
  ev_eventType :: string
  ev_outcome :: string
  ev_action :: string
  ev_initiator :: client_resource
  ev_reason :: "cadf_reason option"
  ev_target :: cadf_resource
  ev_requestPath :: string

text \<open>
  Modelled from the spec: the constants of \<open>pycadf.cadftaxonomy\<close> and \<open>pycadf.cadftype\<close>
  are not part of the sources; the action verbs and outcomes are the ones the
  specification names. No theorem below depends on their spelling beyond their being
  non-empty.
\<close>

definition ACTION_CREATE :: string where "ACTION_CREATE = ''create''"
definition ACTION_READ :: string where "ACTION_READ = ''read''"
definition ACTION_UPDATE :: string where "ACTION_UPDATE = ''update''"
definition ACTION_DELETE :: string where "ACTION_DELETE = ''delete''"
definition ACTION_LIST :: string where "ACTION_LIST = ''list''"
definition OUTCOME_SUCCESS :: string where "OUTCOME_SUCCESS = ''success''"
definition OUTCOME_FAILURE :: string where "OUTCOME_FAILURE = ''failure''"
definition UNKNOWN :: string where "UNKNOWN = ''unknown''"
definition ACCOUNT_USER :: string where "ACCOUNT_USER = ''service/security/account/user''"
definition EVENTTYPE_ACTIVITY :: string where "EVENTTYPE_ACTIVITY = ''activity''"

text \<open>\<open>req_environ.get(k)\<close> and \<open>req_environ.get(k, default)\<close>.\<close>

definition env_get :: "(string \<times> string) list \<Rightarrow> string \<Rightarrow> string \<Rightarrow> string" where
  "env_get env k dflt = (case map_of env k of None \<Rightarrow> dflt | Some v \<Rightarrow> v)"

definition project_or_domain_id :: "request \<Rightarrow> string" where
  "project_or_domain_id req =
     (case map_of (req_environ req) ''HTTP_X_PROJECT_ID'' of
        None \<Rightarrow> env_get (req_environ req) ''HTTP_X_DOMAIN_ID'' UNKNOWN
      | Some v \<Rightarrow> if v \<noteq> [] then v else env_get (req_environ req) ''HTTP_X_DOMAIN_ID'' UNKNOWN)"

record middleware =
  service_type :: string
  service_name :: string
  prefix_template :: string
  resource_specs :: "(string \<times> node) list"

subsection \<open>\<open>_get_custom_action\<close> and \<open>_get_action\<close>\<close>

text \<open>
  The \<open>try\<close> block catches \<open>ValueError\<close> only. \<open>next(iter(payload))\<close> is the first key
  of the body. \<open>action is not ''\<close> is read as \<open>action \<noteq> ''\<close>.
\<close>

definition get_custom_action :: "node \<Rightarrow> string \<Rightarrow> request \<Rightarrow> error + string option" where
  "get_custom_action res_spec action_suffix req =
     (case (if action_suffix = ''action'' then
              (case req_json req of
                 Inl ValueError \<Rightarrow> Inl (Inr None)
               | Inl e \<Rightarrow> Inl (Inl e)
               | Inr payload \<Rightarrow>
                   (case payload of [] \<Rightarrow> Inl (Inr None) | (k, v) # _ \<Rightarrow> Inr k))
            else Inr action_suffix) of
        Inl returned \<Rightarrow> returned
      | Inr rest_action \<Rightarrow>
          (case attr_custom_actions res_spec of
             Inl e \<Rightarrow> Inl e
           | Inr actions \<Rightarrow>
               (case map_of actions rest_action of
                  Some mapped \<Rightarrow> Inr (Some mapped)
                | None \<Rightarrow>
                    (case map_of actions ''*'' of
                       Some generic \<Rightarrow>
                         if generic \<noteq> [] then Inr (Some (replace_star generic rest_action))
                         else if actions = [] then Inr (Some (ACTION_UPDATE @ ''/'' @ rest_action))
                         else Inr None
                     | None \<Rightarrow>
                         if actions = [] then Inr (Some (ACTION_UPDATE @ ''/'' @ rest_action))
                         else Inr None))))"

definition get_action ::
  "node \<Rightarrow> string option \<Rightarrow> request \<Rightarrow> string option \<Rightarrow> error + string option" where
  "get_action res_spec res_id req action_suffix =
     (if req_method req = ''POST'' then
        (case action_suffix of
           None \<Rightarrow> Inr (Some ACTION_CREATE)
         | Some sfx \<Rightarrow> get_custom_action res_spec sfx req)
      else if req_method req = ''GET'' then
        (case action_suffix of
           None \<Rightarrow> Inr (Some (if truthy res_id then ACTION_READ else ACTION_LIST))
         | Some sfx \<Rightarrow> get_custom_action res_spec sfx req)
      else if req_method req = ''PUT'' \<or> req_method req = ''PATCH'' then
        Inr (Some ACTION_UPDATE)
      else if req_method req = ''DELETE'' then Inr (Some ACTION_DELETE)
      else if req_method req = ''HEAD'' then Inr (Some ACTION_READ)
      else Inr None)"

subsection \<open>\<open>_build_target_service_resource\<close>\<close>

text \<open>
  The method is declared with the parameters \<open>(res_spec, req)\<close> and reads
  \<open>res_spec.type_uri\<close> and \<open>req.req_path_url\<close>. Python binds arguments by position and checks
  no types, so each parameter is whatever object the caller passes: a request or a
  grammar node. A request has no attribute \<open>type_uri\<close> and a grammar node no attribute
  \<open>req_path_url\<close>; reading a missing attribute raises \<open>AttributeError\<close>.
\<close>

datatype pyobj = RequestObj request | NodeObj node

definition obj_type_uri :: "pyobj \<Rightarrow> error + string" where
  "obj_type_uri ob = (case ob of RequestObj _ \<Rightarrow> Inl AttributeError | NodeObj n \<Rightarrow> attr_type_uri n)"

definition obj_path_url :: "pyobj \<Rightarrow> error + string" where
  "obj_path_url ob = (case ob of RequestObj r \<Rightarrow> Inr (req_path_url r) | NodeObj _ \<Rightarrow> Inl AttributeError)"

text \<open>
  Modelled from the spec: \<open>Resource.add_address\<close> belongs to pycadf and is not part of
  the sources; the specification has the target carry the path as an address annotation.
\<close>

definition add_address :: "cadf_resource \<Rightarrow> string \<Rightarrow> cadf_resource" where
  "add_address r addr = r\<lparr>rsrc_addresses := rsrc_addresses r @ [addr]\<rparr>"

definition build_target_service_resource ::
  "middleware \<Rightarrow> pyobj \<Rightarrow> pyobj \<Rightarrow> error + cadf_resource" where
  "build_target_service_resource self res_spec req =
     (case obj_type_uri res_spec of
        Inl e \<Rightarrow> Inl e
      | Inr t \<Rightarrow>
          (let target_type_uri = ''service/'' @ t;
               target = \<lparr>rsrc_id = JStr (service_name self), rsrc_typeURI = Some target_type_uri,
                          rsrc_name = JNull, rsrc_addresses = []\<rparr>
           in case obj_path_url req of
                Inl e \<Rightarrow> Inl e
              | Inr url \<Rightarrow> Inr (add_address target url)))"

subsection \<open>\<open>_create_event\<close>\<close>

text \<open>
  \<open>EventFactory().new_event\<close> belongs to pycadf. It is called without an id and gives the
  event one of its own making (the unit tests read it as \<open>event['id']\<close> and expect it to
  differ between two requests); \<open>fresh\<close> stands for that identifier.
\<close>

definition priv_create_event ::
  "middleware \<Rightarrow> string \<Rightarrow> node \<Rightarrow> string option \<Rightarrow> request \<Rightarrow> response option \<Rightarrow>
     string option \<Rightarrow> error + event option" where
  "priv_create_event self fresh res_spec res_id req resp action_suffix =
     (case get_action res_spec res_id req action_suffix of
        Inl e \<Rightarrow> Inl e
      | Inr None \<Rightarrow> Inr None
      | Inr (Some act) \<Rightarrow>
          if act = [] then Inr None
          else
            (let initiator =
                   \<lparr>cr_typeURI = ACCOUNT_USER,
                    cr_id = env_get (req_environ req) ''HTTP_X_USER_ID'' UNKNOWN,
                    cr_name = env_get (req_environ req) ''HTTP_X_USER_NAME'' UNKNOWN,
                    cr_host = \<lparr>host_address = req_client_addr req, host_agent = req_user_agent req\<rparr>,
                    cr_credential =
                      \<lparr>cred_token = env_get (req_environ req) ''HTTP_X_AUTH_TOKEN'' [],
                       cred_identity_status =
                         env_get (req_environ req) ''HTTP_X_IDENTITY_STATUS'' UNKNOWN\<rparr>,
                    cr_project_id = project_or_domain_id req\<rparr>;
                 action_result =
                   (case resp of
                      Some r \<Rightarrow>
                        if 200 \<le> status_int r \<and> status_int r < 400 then OUTCOME_SUCCESS
                        else OUTCOME_FAILURE
                    | None \<Rightarrow> UNKNOWN);
                 event_reason =
                   (case resp of
                      Some r \<Rightarrow>
                        Some \<lparr>reasonType = ''HTTP'', reasonCode = str_int (status_int r)\<rparr>
                    | None \<Rightarrow> None)
             in case (if truthy res_id then
                        (case (if act = ACTION_LIST then Inr True
                               else attr_singleton res_spec) of
                           Inl e \<Rightarrow> Inl e
                         | Inr collection \<Rightarrow>
                             (case (if collection then map_sum id Some (attr_type_uri res_spec)
                                    else attr_el_type_uri res_spec) of
                                Inl e \<Rightarrow> Inl e
                              | Inr rtype \<Rightarrow>
                                  Inr \<lparr>rsrc_id = id_value res_id, rsrc_typeURI = rtype,
                                       rsrc_name = JNull, rsrc_addresses = []\<rparr>))
                      else build_target_service_resource self (RequestObj req)
                             (NodeObj res_spec)) of
                  Inl e \<Rightarrow> Inl e
                | Inr target \<Rightarrow>
                    Inr (Some \<lparr>ev_id = fresh, ev_eventType = EVENTTYPE_ACTIVITY,
                               ev_outcome = action_result, ev_action = act,
                               ev_initiator = initiator, ev_reason = event_reason,
                               ev_target = target, ev_requestPath = req_path_qs req\<rparr>)))"

subsection \<open>\<open>_build_event\<close>\<close>

text \<open>
  Truthiness of a grammar node: a dict is falsy when empty, a named tuple of five fields
  never.
\<close>

definition node_truthy :: "node \<Rightarrow> bool" where
  "node_truthy n = (case n of Dict d \<Rightarrow> d \<noteq> [] | ResourceSpec _ _ _ _ _ \<Rightarrow> True)"

lemma py_find_range:
  "py_find s c start = - 1 \<or>
     (int (nat start) \<le> py_find s c start \<and> py_find s c start < int (length s))"
proof -
  have "find_from c xs i = - 1 \<or>
          (int i \<le> find_from c xs i \<and> find_from c xs i < int i + int (length xs))"
    for xs i
  proof (induction xs arbitrary: i)
    case Nil
    show ?case by simp
  next
    case (Cons x xs)
    from Cons.IH[of "Suc i"] show ?case by auto
  qed
  from this[of "drop (nat start) s" "nat start"] show ?thesis
    by (auto simp: py_find_def)
qed

text \<open>
  \<open>cursor\<close> is \<open>0\<close> at the start, then the position of a \<open>/\<close> in \<open>path\<close>, and \<open>-1\<close> once
  the last segment is consumed. Where the source falls through to the final warning and
  \<open>return None\<close>, the result is \<open>Inr None\<close>. Assigning \<open>event.target\<close> on \<open>None\<close> would raise
  \<open>AttributeError\<close>.
\<close>

function build_event ::
  "middleware \<Rightarrow> string \<Rightarrow> node \<Rightarrow> string option \<Rightarrow> string option \<Rightarrow> request \<Rightarrow>
     response option \<Rightarrow> string \<Rightarrow> int \<Rightarrow> error + event option" where
  "build_event self fresh res_node res_id res_parent_id req resp path cursor =
     (if cursor = - 1 then
        (case priv_create_event self fresh res_node (py_or res_id res_parent_id) req resp None of
           Inl e \<Rightarrow> Inl e
         | Inr ev \<Rightarrow>
             if req_method req = ''POST'' then
               (case resp of
                  None \<Rightarrow> Inr ev
                | Some r \<Rightarrow>
                    (case resp_json r of
                       Inl e \<Rightarrow> Inl e
                     | Inr payload \<Rightarrow>
                         if payload \<noteq> [] then
                           (let name = (if py_get payload ''name'' = JNull
                                        then py_get payload ''displayName''
                                        else py_get payload ''name'')
                            in case attr_type_uri res_node of
                                 Inl e \<Rightarrow> Inl e
                               | Inr t \<Rightarrow>
                                   (case ev of
                                      None \<Rightarrow> Inl AttributeError
                                    | Some ev' \<Rightarrow>
                                        Inr (Some (ev'\<lparr>ev_target :=
                                          \<lparr>rsrc_id = py_get payload ''id'', rsrc_typeURI = Some t,
                                           rsrc_name = name, rsrc_addresses = []\<rparr>\<rparr>))))
                         else Inr ev))
             else Inr ev)
      else
        (let next_pos = py_find path CHR ''/'' (cursor + 1);
             token = (if next_pos \<noteq> - 1 then py_slice path (cursor + 1) next_pos
                      else py_slice_from path (cursor + 1))
         in case res_node of
              Dict d \<Rightarrow>
                (case map_of d token of
                   None \<Rightarrow> Inr None
                 | Some found \<Rightarrow> build_event self fresh found None None req resp path next_pos)
            | ResourceSpec _ _ single _ child_specs \<Rightarrow>
                if truthy res_id \<or> single then
                  (case map_of child_specs token of
                     Some child_res \<Rightarrow>
                       if node_truthy child_res then
                         build_event self fresh child_res None (py_or res_id res_parent_id)
                           req resp path next_pos
                       else if next_pos = - 1 then
                         priv_create_event self fresh res_node (py_or res_id res_parent_id)
                           req resp (Some token)
                       else Inr None
                   | None \<Rightarrow>
                       if next_pos = - 1 then
                         priv_create_event self fresh res_node (py_or res_id res_parent_id)
                           req resp (Some token)
                       else Inr None)
                else build_event self fresh res_node (Some token) res_parent_id
                       req resp path next_pos))"
  by pat_completeness auto
termination
proof (relation "measure (\<lambda>(self, fresh, n, i, p, rq, rs, path, cursor).
          if cursor = - 1 then 0 else 1 + nat (int (length path) + 2 - int (nat (cursor + 1))))",
       goal_cases)
  case 1
  show ?case by simp
next
  case (2 self fresh res_node res_id res_parent_id req resp path cursor next_pos token d found)
  with py_find_range[of path "CHR ''/''" "cursor + 1"] show ?case by auto
next
  case (3 self fresh res_node res_id res_parent_id req resp path cursor next_pos token t e sg ca ch child)
  with py_find_range[of path "CHR ''/''" "cursor + 1"] show ?case by auto
next
  case (4 self fresh res_node res_id res_parent_id req resp path cursor next_pos token t e sg ca ch)
  with py_find_range[of path "CHR ''/''" "cursor + 1"] show ?case by auto
qed

declare build_event.simps [simp del]

subsection \<open>\<open>_strip_url_prefix\<close> and \<open>create_event\<close>\<close>

text \<open>
  \<open>prefix_template.format(project_id=...)\<close> for a template whose replacement fields are
  all \<open>{project_id}\<close>: every occurrence becomes the id. Other uses of braces in a template
  are outside the model.
\<close>

function format_project_id :: "string \<Rightarrow> string \<Rightarrow> string" where
  "format_project_id [] pid = []"
| "format_project_id (c # cs) pid =
     (if startswith (c # cs) ''{project_id}''
      then pid @ format_project_id (drop 12 (c # cs)) pid
      else c # format_project_id cs pid)"
  by pat_completeness auto
termination
  by (relation "measure (\<lambda>(t, pid). length t)") auto

definition strip_url_prefix :: "middleware \<Rightarrow> request \<Rightarrow> string option" where
  "strip_url_prefix self req =
     (let prefix = format_project_id (prefix_template self) (project_or_domain_id req)
      in if startswith (req_path req) prefix
         then Some (py_slice_from (req_path req) (int (length prefix)))
         else None)"

text \<open>
  \<open>response=None\<close> is the default. \<open>path.endswith\<close> on \<open>None\<close> raises \<open>AttributeError\<close>:
  \<open>None\<close> has no such attribute.
\<close>

definition create_event ::
  "middleware \<Rightarrow> string \<Rightarrow> request \<Rightarrow> response option \<Rightarrow> error + event option" where
  "create_event self fresh req resp =
     (case strip_url_prefix self req of
        None \<Rightarrow> Inl AttributeError
      | Some stripped \<Rightarrow>
          (let path = (if endswith_slash stripped then butlast stripped else stripped)
           in build_event self fresh (Dict (resource_specs self)) None None req resp path 0))"

section \<open>Properties\<close>

subsection \<open>Sample inputs\<close>

definition example_request :: "string \<Rightarrow> string \<Rightarrow> request" where
  "example_request m p =
     \<lparr>req_method = m, req_path = p, req_path_qs = p, req_path_url = ''http://host'' @ p,
      req_client_addr = Some ''192.168.0.1'', req_user_agent = None,
      req_environ = [(''HTTP_X_PROJECT_ID'', ''p1'')],
      req_json = Inr [(''reboot'', JObj [])]\<rparr>"

definition example_spec :: "(string \<times> string) list \<Rightarrow> node" where
  "example_spec ca =
     ResourceSpec ''compute/servers'' (Some ''compute/servers/server'') False ca []"

subsection \<open>Action derivation\<close>

lemma priv_create_event_no_action:
  "get_action sp rid req sfx = Inr None \<Longrightarrow> priv_create_event self fresh sp rid req resp sfx = Inr None"
  by (simp add: priv_create_event_def)

lemma priv_create_event_empty_action:
  "get_action sp rid req sfx = Inr (Some []) \<Longrightarrow> priv_create_event self fresh sp rid req resp sfx = Inr None"
  by (simp add: priv_create_event_def)

text \<open>
  Claim C1. The action that \<open>_get_action\<close> derives is decided by the HTTP method, by
  whether an instance id is bound (truthy) and by the action suffix: POST without a suffix
  gives create; GET without a suffix gives read when an id is bound and list when not; POST
  or GET with a suffix gives what the custom-action lookup gives; PUT and PATCH give update,
  DELETE gives delete and HEAD gives read, whatever the suffix; any other method gives no
  action, and \<open>_create_event\<close> then returns no event. Two requests with the same method
  and body, and two ids that are both bound or both unbound, give the same action.
\<close>

theorem get_action_by_method:
  "(req_method req = ''POST'' \<longrightarrow> get_action sp rid req None = Inr (Some ACTION_CREATE)) \<and>
   (req_method req = ''GET'' \<longrightarrow>
      get_action sp rid req None = Inr (Some (if truthy rid then ACTION_READ else ACTION_LIST))) \<and>
   (req_method req = ''POST'' \<or> req_method req = ''GET'' \<longrightarrow>
      get_action sp rid req (Some sfx) = get_custom_action sp sfx req) \<and>
   (req_method req = ''PUT'' \<or> req_method req = ''PATCH'' \<longrightarrow>
      get_action sp rid req suffix = Inr (Some ACTION_UPDATE)) \<and>
   (req_method req = ''DELETE'' \<longrightarrow> get_action sp rid req suffix = Inr (Some ACTION_DELETE)) \<and>
   (req_method req = ''HEAD'' \<longrightarrow> get_action sp rid req suffix = Inr (Some ACTION_READ)) \<and>
   (req_method req \<notin> {''POST'', ''GET'', ''PUT'', ''PATCH'', ''DELETE'', ''HEAD''} \<longrightarrow>
      get_action sp rid req suffix = Inr None \<and>
      priv_create_event self fresh sp rid req resp suffix = Inr None) \<and>
   (req_method req' = req_method req \<and> req_json req' = req_json req \<and>
    truthy rid' = truthy rid \<longrightarrow>
      get_action sp rid' req' suffix = get_action sp rid req suffix)"
proof (intro conjI impI)
  assume "req_method req = ''POST''"
  then show "get_action sp rid req None = Inr (Some ACTION_CREATE)"
    by (simp add: get_action_def)
next
  assume "req_method req = ''GET''"
  then show "get_action sp rid req None
      = Inr (Some (if truthy rid then ACTION_READ else ACTION_LIST))"
    by (simp add: get_action_def)
next
  assume "req_method req = ''POST'' \<or> req_method req = ''GET''"
  then show "get_action sp rid req (Some sfx) = get_custom_action sp sfx req"
    by (auto simp add: get_action_def)
next
  assume "req_method req = ''PUT'' \<or> req_method req = ''PATCH''"
  then show "get_action sp rid req suffix = Inr (Some ACTION_UPDATE)"
    by (auto simp add: get_action_def)
next
  assume "req_method req = ''DELETE''"
  then show "get_action sp rid req suffix = Inr (Some ACTION_DELETE)"
    by (simp add: get_action_def)
next
  assume "req_method req = ''HEAD''"
  then show "get_action sp rid req suffix = Inr (Some ACTION_READ)"
    by (simp add: get_action_def)
next
  assume other: "req_method req \<notin> {''POST'', ''GET'', ''PUT'', ''PATCH'', ''DELETE'', ''HEAD''}"
  then show none: "get_action sp rid req suffix = Inr None"
    by (simp add: get_action_def)
  then show "priv_create_event self fresh sp rid req resp suffix = Inr None"
    by (rule priv_create_event_no_action)
next
  assume "req_method req' = req_method req \<and> req_json req' = req_json req \<and>
    truthy rid' = truthy rid"
  then have m: "req_method req' = req_method req" and j: "req_json req' = req_json req"
    and t: "truthy rid' = truthy rid" by simp_all
  have c: "get_custom_action sp x req' = get_custom_action sp x req" for x
    by (simp add: get_custom_action_def j)
  show "get_action sp rid' req' suffix = get_action sp rid req suffix"
    by (cases suffix) (simp_all add: get_action_def m t c)
qed

theorem get_action_by_method_witness:
  "get_action (example_spec []) None (example_request ''POST'' ''/v2/p1/servers'') None
     = Inr (Some ACTION_CREATE) \<and>
   get_action (example_spec []) (Some ''abc'') (example_request ''GET'' ''/v2/p1/servers/abc'') None
     = Inr (Some ACTION_READ) \<and>
   get_action (example_spec []) None (example_request ''GET'' ''/v2/p1/servers'') None
     = Inr (Some ACTION_LIST) \<and>
   get_action (example_spec []) None (example_request ''PATCH'' ''/v2/p1/servers'') (Some ''x'')
     = Inr (Some ACTION_UPDATE) \<and>
   get_action (example_spec []) None (example_request ''OPTIONS'' ''/v2/p1/servers'') None
     = Inr None"
proof (intro conjI)
  show "get_action (example_spec []) None (example_request ''POST'' ''/v2/p1/servers'') None
     = Inr (Some ACTION_CREATE)"
    using get_action_by_method[of "example_request ''POST'' ''/v2/p1/servers''" "example_spec []" None]
    by (simp add: example_request_def)
  show "get_action (example_spec []) (Some ''abc'') (example_request ''GET'' ''/v2/p1/servers/abc'') None
     = Inr (Some ACTION_READ)"
    using get_action_by_method[of "example_request ''GET'' ''/v2/p1/servers/abc''" "example_spec []" "Some ''abc''"]
    by (simp add: example_request_def truthy_def)
  show "get_action (example_spec []) None (example_request ''GET'' ''/v2/p1/servers'') None
     = Inr (Some ACTION_LIST)"
    using get_action_by_method[of "example_request ''GET'' ''/v2/p1/servers''" "example_spec []" None]
    by (simp add: example_request_def truthy_def)
  show "get_action (example_spec []) None (example_request ''PATCH'' ''/v2/p1/servers'') (Some ''x'')
     = Inr (Some ACTION_UPDATE)"
    using get_action_by_method[of "example_request ''PATCH'' ''/v2/p1/servers''" "example_spec []" None _ "Some ''x''"]
    by (simp add: example_request_def)
  show "get_action (example_spec []) None (example_request ''OPTIONS'' ''/v2/p1/servers'') None
     = Inr None"
    using get_action_by_method[of "example_request ''OPTIONS'' ''/v2/p1/servers''" "example_spec []" None _ None]
    by (simp add: example_request_def)
qed

subsection \<open>Custom-action lookup\<close>

lemma get_custom_action_token:
  assumes "sfx \<noteq> ''action'' \<and> tok = sfx \<or>
           sfx = ''action'' \<and> req_json req = Inr ((tok, v) # others)"
  shows "get_custom_action (ResourceSpec t e s ca ch) sfx req =
     (case map_of ca tok of
        Some a \<Rightarrow> Inr (Some a)
      | None \<Rightarrow>
          (case map_of ca ''*'' of
             Some w \<Rightarrow> if w \<noteq> [] then Inr (Some (replace_star w tok)) else Inr None
           | None \<Rightarrow> if ca = [] then Inr (Some (ACTION_UPDATE @ ''/'' @ tok)) else Inr None))"
proof -
  have ne: "ca \<noteq> []" if "map_of ca k = Some w" for k w
    using that by auto
  from assms show ?thesis
  proof
    assume "sfx \<noteq> ''action'' \<and> tok = sfx"
    then show ?thesis
      by (auto simp: get_custom_action_def attr_custom_actions_def split: option.splits)
  next
    assume "sfx = ''action'' \<and> req_json req = Inr ((tok, v) # others)"
    then show ?thesis
      by (auto simp: get_custom_action_def attr_custom_actions_def split: option.splits)
  qed
qed

lemma replace_star_plain: "CHR ''*'' \<notin> set w \<Longrightarrow> replace_star w tok = w"
  by (induction w) (auto simp: replace_star_def)

lemma replace_star_append:
  "replace_star (a @ b) tok = replace_star a tok @ replace_star b tok"
  by (simp add: replace_star_def)

lemma replace_star_star: "replace_star (CHR ''*'' # w) tok = tok @ replace_star w tok"
  by (simp add: replace_star_def)

text \<open>
  Claim C2. With \<open>tok\<close> the raw action token (the trailing path segment \<open>sfx\<close>, or the first
  key of the request body when \<open>sfx\<close> is \<open>action\<close>), the lookup of \<open>_get_custom_action\<close> in
  the resource's table \<open>ca\<close> goes in this order: an exact entry is returned as it is (and an
  empty one makes \<open>_create_event\<close> return no event); otherwise a non-empty entry for \<open>*\<close> is
  returned with every \<open>*\<close> replaced by the token, and an empty one gives no action; an empty
  table gives the default \<open>update/<token>\<close>; a non-empty table with neither an exact entry
  nor an entry for \<open>*\<close> gives no action.
\<close>

theorem custom_action_lookup_order:
  assumes tok: "sfx \<noteq> ''action'' \<and> tok = sfx \<or>
                sfx = ''action'' \<and> req_json req = Inr ((tok, v) # others)"
  shows "(map_of ca tok = Some a \<longrightarrow>
            get_custom_action (ResourceSpec t e s ca ch) sfx req = Inr (Some a)) \<and>
         (map_of ca tok = Some [] \<and> (req_method req = ''POST'' \<or> req_method req = ''GET'') \<longrightarrow>
            priv_create_event self fresh (ResourceSpec t e s ca ch) rid req resp (Some sfx)
              = Inr None) \<and>
         (map_of ca tok = None \<and> map_of ca ''*'' = Some w \<and> w \<noteq> [] \<longrightarrow>
            get_custom_action (ResourceSpec t e s ca ch) sfx req
              = Inr (Some (replace_star w tok))) \<and>
         (map_of ca tok = None \<and> map_of ca ''*'' = Some [] \<longrightarrow>
            get_custom_action (ResourceSpec t e s ca ch) sfx req = Inr None) \<and>
         (ca = [] \<longrightarrow>
            get_custom_action (ResourceSpec t e s ca ch) sfx req
              = Inr (Some (ACTION_UPDATE @ ''/'' @ tok))) \<and>
         (ca \<noteq> [] \<and> map_of ca tok = None \<and> map_of ca ''*'' = None \<longrightarrow>
            get_custom_action (ResourceSpec t e s ca ch) sfx req = Inr None) \<and>
         replace_star (pre @ ''*'' @ post) tok
           = replace_star pre tok @ tok @ replace_star post tok \<and>
         (CHR ''*'' \<notin> set pre \<longrightarrow> replace_star pre tok = pre)"
proof -
  note eq = get_custom_action_token[OF tok, of t e s ca ch]
  have exact: "get_custom_action (ResourceSpec t e s ca ch) sfx req = Inr (Some a)"
    if "map_of ca tok = Some a" for a
    using that by (simp add: eq)
  have suppressed:
    "priv_create_event self fresh (ResourceSpec t e s ca ch) rid req resp (Some sfx) = Inr None"
    if "map_of ca tok = Some []" "req_method req = ''POST'' \<or> req_method req = ''GET''"
  proof -
    have "get_action (ResourceSpec t e s ca ch) rid req (Some sfx) = Inr (Some [])"
      using that(2) exact[OF that(1)] by (auto simp: get_action_def)
    then show ?thesis by (rule priv_create_event_empty_action)
  qed
  have wild: "get_custom_action (ResourceSpec t e s ca ch) sfx req
      = Inr (Some (replace_star w tok))"
    if "map_of ca tok = None" "map_of ca ''*'' = Some w" "w \<noteq> []"
    using that by (simp add: eq)
  have wild_empty: "get_custom_action (ResourceSpec t e s ca ch) sfx req = Inr None"
    if "map_of ca tok = None" "map_of ca ''*'' = Some []"
    using that by (simp add: eq)
  have dflt: "get_custom_action (ResourceSpec t e s ca ch) sfx req
      = Inr (Some (ACTION_UPDATE @ ''/'' @ tok))"
    if "ca = []"
    unfolding eq using that by simp
  have filtered: "get_custom_action (ResourceSpec t e s ca ch) sfx req = Inr None"
    if "ca \<noteq> []" "map_of ca tok = None" "map_of ca ''*'' = None"
    using that by (simp add: eq)
  have star: "replace_star (pre @ ''*'' @ post) tok
      = replace_star pre tok @ tok @ replace_star post tok"
    by (simp add: replace_star_append replace_star_star)
  show ?thesis
    using exact suppressed wild wild_empty dflt filtered star replace_star_plain[of pre tok]
    by blast
qed

theorem custom_action_lookup_order_witness:
  "get_custom_action (example_spec [(''reboot'', ''compute:reboot''), (''*'', ''compute:*'')])
      ''action'' (example_request ''POST'' ''/v2/p1/servers/abc123/action'')
     = Inr (Some ''compute:reboot'') \<and>
   get_custom_action (example_spec [(''*'', ''compute:*'')])
      ''unlock'' (example_request ''POST'' ''/v2/p1/servers/abc123/unlock'')
     = Inr (Some ''compute:unlock'') \<and>
   get_custom_action (example_spec [(''*'', [])])
      ''unlock'' (example_request ''POST'' ''/v2/p1/servers/abc123/unlock'')
     = Inr None \<and>
   get_custom_action (example_spec [])
      ''action'' (example_request ''POST'' ''/v2/p1/servers/abc123/action'')
     = Inr (Some ''update/reboot'') \<and>
   get_custom_action (example_spec [(''reboot'', ''compute:reboot'')])
      ''unlock'' (example_request ''POST'' ''/v2/p1/servers/abc123/unlock'')
     = Inr None"
proof (intro conjI)
  show "get_custom_action (example_spec [(''reboot'', ''compute:reboot''), (''*'', ''compute:*'')])
      ''action'' (example_request ''POST'' ''/v2/p1/servers/abc123/action'')
     = Inr (Some ''compute:reboot'')"
    using custom_action_lookup_order[of "''action''" "''reboot''"
        "example_request ''POST'' ''/v2/p1/servers/abc123/action''" "JObj []" "[]"
        "[(''reboot'', ''compute:reboot''), (''*'', ''compute:*'')]" "''compute:reboot''"]
    by (simp add: example_request_def example_spec_def)
  show "get_custom_action (example_spec [(''*'', ''compute:*'')])
      ''unlock'' (example_request ''POST'' ''/v2/p1/servers/abc123/unlock'')
     = Inr (Some ''compute:unlock'')"
    using custom_action_lookup_order[of "''unlock''" "''unlock''"
        "example_request ''POST'' ''/v2/p1/servers/abc123/unlock''" _ _
        "[(''*'', ''compute:*'')]" _ _ _ _ _ _ _ _ _ "''compute:*''"]
    by (simp add: example_spec_def replace_star_def)
  show "get_custom_action (example_spec [(''*'', [])])
      ''unlock'' (example_request ''POST'' ''/v2/p1/servers/abc123/unlock'')
     = Inr None"
    using custom_action_lookup_order[of "''unlock''" "''unlock''"
        "example_request ''POST'' ''/v2/p1/servers/abc123/unlock''" _ _
        "[(''*'', [])]"]
    by (simp add: example_spec_def)
  show "get_custom_action (example_spec [])
      ''action'' (example_request ''POST'' ''/v2/p1/servers/abc123/action'')
     = Inr (Some ''update/reboot'')"
    using custom_action_lookup_order[of "''action''" "''reboot''"
        "example_request ''POST'' ''/v2/p1/servers/abc123/action''" "JObj []" "[]" "[]"]
    by (simp add: example_request_def example_spec_def ACTION_UPDATE_def)
  show "get_custom_action (example_spec [(''reboot'', ''compute:reboot'')])
      ''unlock'' (example_request ''POST'' ''/v2/p1/servers/abc123/unlock'')
     = Inr None"
    using custom_action_lookup_order[of "''unlock''" "''unlock''"
        "example_request ''POST'' ''/v2/p1/servers/abc123/unlock''" _ _
        "[(''reboot'', ''compute:reboot'')]"]
    by (simp add: example_spec_def)
qed

subsection \<open>An empty custom-actions mapping\<close>

lemma parse_resources_loop_empty_actions:
  "parse_resources_loop svc parent
      (pre @ (name, Some (RawSpec sg tu (Some []) chn)) # post) result
   = parse_resources_loop svc parent
      (pre @ (name, Some (RawSpec sg tu None chn)) # post) result"
proof (induction pre arbitrary: result)
  case Nil
  show ?case by (simp add: Let_def cong: sum.case_cong)
next
  case (Cons x pre)
  obtain n s where x: "x = (n, s)" by (cases x)
  show ?case
    unfolding x append_Cons parse_resources_loop.simps Let_def
    by (simp add: Cons.IH split: sum.splits)
qed

text \<open>
  Claim C10. A resource configured with \<open>custom_actions: {}\<close> compiles to the same grammar as
  the resource without the key, wherever it stands in the configuration. On the compiled
  resource, whose table is then empty, every action token gives the default verb
  \<open>update/<token>\<close>; and a token that the lookup filters out proves the table non-empty.
\<close>

theorem empty_custom_actions_as_absent:
  "parse_resources svc (pre @ (name, Some (RawSpec sg tu (Some []) chn)) # post) parent
     = parse_resources svc (pre @ (name, Some (RawSpec sg tu None chn)) # post) parent \<and>
   (sfx \<noteq> ''action'' \<and> tok = sfx \<or>
    sfx = ''action'' \<and> req_json req = Inr ((tok, v) # others) \<longrightarrow>
      get_custom_action (ResourceSpec t e s [] ch) sfx req
        = Inr (Some (ACTION_UPDATE @ ''/'' @ tok)) \<and>
      (get_custom_action (ResourceSpec t e s ca ch) sfx req = Inr None \<longrightarrow> ca \<noteq> []))"
proof (intro conjI impI)
  show "parse_resources svc (pre @ (name, Some (RawSpec sg tu (Some []) chn)) # post) parent
     = parse_resources svc (pre @ (name, Some (RawSpec sg tu None chn)) # post) parent"
    unfolding parse_resources_def by (rule parse_resources_loop_empty_actions)
next
  assume tok: "sfx \<noteq> ''action'' \<and> tok = sfx \<or>
    sfx = ''action'' \<and> req_json req = Inr ((tok, v) # others)"
  show "get_custom_action (ResourceSpec t e s [] ch) sfx req
        = Inr (Some (ACTION_UPDATE @ ''/'' @ tok))"
    by (simp add: get_custom_action_token[OF tok])
  assume "get_custom_action (ResourceSpec t e s ca ch) sfx req = Inr None"
  then show "ca \<noteq> []"
    by (auto simp: get_custom_action_token[OF tok])
qed

theorem empty_custom_actions_as_absent_witness:
  "parse_resources ''compute''
      [(''servers'', Some (RawSpec None None (Some []) None))] None
     = Inr [(''servers'', example_spec [])] \<and>
   parse_resources ''compute''
      [(''servers'', Some (RawSpec None None None None))] None
     = Inr [(''servers'', example_spec [])] \<and>
   get_custom_action (example_spec []) ''action''
      (example_request ''POST'' ''/v2/p1/servers/abc123/action'')
     = Inr (Some ''update/reboot'')"
proof -
  have a: "parse_resources ''compute''
      [(''servers'', Some (RawSpec None None None None))] None
     = Inr [(''servers'', example_spec [])]"
    by (simp add: parse_resources_def example_spec_def py_find_def put_hier.simps)
  have b: "req_json (example_request ''POST'' ''/v2/p1/servers/abc123/action'')
     = Inr ((''reboot'', JObj []) # [])"
    by (simp add: example_request_def)
  show ?thesis
    using a b
      empty_custom_actions_as_absent[of "''compute''" "[]" "''servers''" None None None "[]"
        None "''action''" "''reboot''"
        "example_request ''POST'' ''/v2/p1/servers/abc123/action''" "JObj []" "[]"
        "''compute/servers''" "Some ''compute/servers/server''" False "[]"]
    by (simp add: example_spec_def ACTION_UPDATE_def)
qed

subsection \<open>Events that are built\<close>

definition example_middleware :: "(string \<times> string) list \<Rightarrow> middleware" where
  "example_middleware ca =
     \<lparr>service_type = ''compute'', service_name = ''nova'',
      prefix_template = ''/v2/{project_id}'',
      resource_specs = [(''servers'', example_spec ca)]\<rparr>"

definition example_response :: "int \<Rightarrow> (string \<times> json_value) list \<Rightarrow> response" where
  "example_response code body = \<lparr>status_int = code, resp_json = Inr body\<rparr>"

lemma str_int_200: "str_int 200 = ''200''"
  by code_simp

lemma example_strip:
  "strip_url_prefix (example_middleware ca) (example_request m (''/v2/p1'' @ p)) = Some p"
  by (simp add: strip_url_prefix_def example_middleware_def example_request_def
      project_or_domain_id_def startswith_def py_slice_from_def)

definition example_read_event :: event where
  "example_read_event =
       \<lparr>ev_id = ''e1'', ev_eventType = ''activity'',
          ev_outcome = ''success'', ev_action = ''read'',
          ev_initiator =
            \<lparr>cr_typeURI = ''service/security/account/user'',
               cr_id = ''unknown'', cr_name = ''unknown'',
               cr_host = \<lparr>host_address = Some ''192.168.0.1'', host_agent = None\<rparr>,
               cr_credential =
                 \<lparr>cred_token = [], cred_identity_status = ''unknown''\<rparr>,
               cr_project_id = ''p1''\<rparr>,
          ev_reason = Some \<lparr>reasonType = ''HTTP'', reasonCode = ''200''\<rparr>,
          ev_target =
            \<lparr>rsrc_id = JStr ''abc123'',
               rsrc_typeURI = Some ''compute/servers/server'',
               rsrc_name = JNull, rsrc_addresses = []\<rparr>,
          ev_requestPath = ''/v2/p1/servers/abc123''\<rparr>"

lemma example_read:
  "create_event (example_middleware []) ''e1''
      (example_request ''GET'' ''/v2/p1/servers/abc123'')
      (Some (example_response 200 []))
   = Inr (Some example_read_event)"
  by code_simp


lemma priv_create_event_outcome:
  assumes "priv_create_event self fresh n rid req resp sfx = Inr (Some ev)"
  shows "ev_outcome ev =
           (case resp of
              None \<Rightarrow> UNKNOWN
            | Some r \<Rightarrow> if 200 \<le> status_int r \<and> status_int r < 400
                        then OUTCOME_SUCCESS else OUTCOME_FAILURE)"
    and "ev_reason ev =
           (case resp of
              None \<Rightarrow> None
            | Some r \<Rightarrow> Some \<lparr>reasonType = ''HTTP'', reasonCode = str_int (status_int r)\<rparr>)"
  using assms
  by (auto simp: priv_create_event_def Let_def split: sum.splits option.splits if_splits)


lemma build_event_end:
  "build_event self fresh n rid pid req resp path (- 1) = Inr (Some ev) \<Longrightarrow>
     \<exists>ev0. priv_create_event self fresh n (py_or rid pid) req resp None = Inr (Some ev0) \<and>
       (ev = ev0 \<or>
        (\<exists>r payload t. req_method req = ''POST'' \<and> resp = Some r \<and>
           resp_json r = Inr payload \<and> payload \<noteq> [] \<and> attr_type_uri n = Inr t \<and>
           ev = ev0\<lparr>ev_target :=
                  \<lparr>rsrc_id = py_get payload ''id'', rsrc_typeURI = Some t,
                   rsrc_name = (if py_get payload ''name'' = JNull
                                then py_get payload ''displayName''
                                else py_get payload ''name''),
                   rsrc_addresses = []\<rparr>\<rparr>))"
  apply (subst (asm) build_event.simps)
  apply (auto simp: Let_def split: sum.splits option.splits if_split_asm)
  done

lemma build_event_property:
  assumes built: "build_event self fresh n rid pid req resp path cursor = Inr (Some ev)"
    and created: "\<And>n rid sfx ev0.
        priv_create_event self fresh n rid req resp sfx = Inr (Some ev0) \<Longrightarrow> P ev0"
    and retarget: "\<And>ev0 tgt. P ev0 \<Longrightarrow> P (ev0\<lparr>ev_target := tgt\<rparr>)"
  shows "P ev"
  using assms
proof (induction self fresh n rid pid req resp path cursor rule: build_event.induct)
  case (1 self fresh res_node res_id res_parent_id req resp path cursor)
  show ?case
  proof (cases "cursor = - 1")
    case True
    with "1.prems" build_event_end[of self fresh res_node res_id res_parent_id req resp path ev]
    show ?thesis
      using "1.prems"(2,3) by auto
  next
    case False
    note ih = "1.IH"[OF False refl refl]
    from "1.prems"(1) False have step:
      "(let next_pos = py_find path CHR ''/'' (cursor + 1);
            token = (if next_pos \<noteq> - 1 then py_slice path (cursor + 1) next_pos
                     else py_slice_from path (cursor + 1))
        in case res_node of
          Dict d \<Rightarrow>
            (case map_of d token of
               None \<Rightarrow> Inr None
             | Some found \<Rightarrow> build_event self fresh found None None req resp path next_pos)
        | ResourceSpec _ _ single _ child_specs \<Rightarrow>
            if truthy res_id \<or> single then
              (case map_of child_specs token of
                 Some child_res \<Rightarrow>
                   if node_truthy child_res then
                     build_event self fresh child_res None (py_or res_id res_parent_id)
                       req resp path next_pos
                   else if next_pos = - 1 then
                     priv_create_event self fresh res_node (py_or res_id res_parent_id)
                       req resp (Some token)
                   else Inr None
               | None \<Rightarrow>
                   if next_pos = - 1 then
                     priv_create_event self fresh res_node (py_or res_id res_parent_id)
                       req resp (Some token)
                   else Inr None)
            else build_event self fresh res_node (Some token) res_parent_id
                   req resp path next_pos) = Inr (Some ev)"
      by (subst (asm) build_event.simps) simp
    show ?thesis
    proof (cases res_node)
      case (Dict d)
      with step ih(1) "1.prems"(2,3) show ?thesis
        by (auto simp: Let_def split: option.splits)
    next
      case (ResourceSpec t e sg ca ch)
      with step ih(2,3) "1.prems"(2,3) show ?thesis
        by (auto simp: Let_def split: option.splits if_split_asm)
    qed
  qed
qed


lemma create_event_property:
  assumes "create_event self fresh req resp = Inr (Some ev)"
    and "\<And>n rid sfx ev0.
        priv_create_event self fresh n rid req resp sfx = Inr (Some ev0) \<Longrightarrow> P ev0"
    and "\<And>ev0 tgt. P ev0 \<Longrightarrow> P (ev0\<lparr>ev_target := tgt\<rparr>)"
  shows "P ev"
proof -
  from assms(1) obtain path where
    "build_event self fresh (Dict (resource_specs self)) None None req resp path 0
       = Inr (Some ev)"
    by (auto simp: create_event_def Let_def split: option.splits)
  then show ?thesis
    using assms(2,3) by (rule build_event_property)
qed

subsection \<open>Outcome and reason\<close>

text \<open>
  Claim C8. In every event that \<open>create_event\<close> returns, the outcome is success exactly
  when there is a response whose status code lies in \<open>[200, 400)\<close>, failure exactly when
  there is a response with any other status code, and unknown exactly when there is no
  response; the reason is absent without a response and is otherwise the reason of type
  \<open>HTTP\<close> whose code is the status code printed as a string.
\<close>

theorem outcome_and_reason:
  assumes "create_event self fresh req resp = Inr (Some ev)"
  shows "(ev_outcome ev = OUTCOME_SUCCESS \<longleftrightarrow>
            (\<exists>r. resp = Some r \<and> 200 \<le> status_int r \<and> status_int r < 400)) \<and>
         (ev_outcome ev = OUTCOME_FAILURE \<longleftrightarrow>
            (\<exists>r. resp = Some r \<and> \<not> (200 \<le> status_int r \<and> status_int r < 400))) \<and>
         (ev_outcome ev = UNKNOWN \<longleftrightarrow> resp = None) \<and>
         (ev_reason ev = None \<longleftrightarrow> resp = None) \<and>
         (\<forall>r. resp = Some r \<longrightarrow>
            ev_reason ev = Some \<lparr>reasonType = ''HTTP'', reasonCode = str_int (status_int r)\<rparr>)"
proof -
  let ?P = "\<lambda>ev.
     ev_outcome ev =
       (case resp of
          None \<Rightarrow> UNKNOWN
        | Some r \<Rightarrow> if 200 \<le> status_int r \<and> status_int r < 400
                    then OUTCOME_SUCCESS else OUTCOME_FAILURE) \<and>
     ev_reason ev =
       (case resp of
          None \<Rightarrow> None
        | Some r \<Rightarrow> Some \<lparr>reasonType = ''HTTP'', reasonCode = str_int (status_int r)\<rparr>)"
  have "?P ev"
  proof (rule create_event_property[OF assms, of ?P])
    fix n rid sfx ev0
    assume "priv_create_event self fresh n rid req resp sfx = Inr (Some ev0)"
    then show "?P ev0"
      using priv_create_event_outcome by blast
  next
    fix ev0 :: event and tgt
    assume "?P ev0"
    then show "?P (ev0\<lparr>ev_target := tgt\<rparr>)" by simp
  qed
  then show ?thesis
    by (cases resp) (auto simp: OUTCOME_SUCCESS_def OUTCOME_FAILURE_def UNKNOWN_def)
qed

theorem outcome_and_reason_witness:
  "create_event (example_middleware []) ''e1''
      (example_request ''GET'' ''/v2/p1/servers/abc123'')
      (Some (example_response 200 [])) = Inr (Some example_read_event) \<and>
   ev_outcome example_read_event = OUTCOME_SUCCESS \<and>
   ev_reason example_read_event = Some \<lparr>reasonType = ''HTTP'', reasonCode = ''200''\<rparr>"
  using outcome_and_reason[OF example_read] example_read
  by (simp add: example_response_def str_int_200)

subsection \<open>Requests that make \<open>create_event\<close> raise\<close>

lemma create_event_without_prefix:
  "strip_url_prefix self req = None \<Longrightarrow> create_event self fresh req resp = Inl AttributeError"
  by (simp add: create_event_def)

lemma priv_create_event_without_id:
  assumes "get_action n rid req sfx = Inr (Some act)" and "act \<noteq> []" and "\<not> truthy rid"
  shows "priv_create_event self fresh n rid req resp sfx = Inl AttributeError"
  using assms
  by (simp add: priv_create_event_def build_target_service_resource_def obj_type_uri_def)

text \<open>
  Claim C3. \<open>create_event\<close> is to return no event, and never to raise, for a request that it
  cannot map. A request whose path does not start with the prefix makes
  \<open>_strip_url_prefix\<close> return \<open>None\<close>, on which \<open>create_event\<close> calls \<open>endswith\<close>: the call
  raises \<open>AttributeError\<close>. Here the prefix is \<open>/v2/p1\<close> and the path \<open>/v3/p1/servers\<close>.
\<close>

theorem create_event_raises_on_prefix_mismatch:
  "strip_url_prefix (example_middleware []) (example_request ''GET'' ''/v3/p1/servers'') = None \<and>
   create_event (example_middleware []) ''e1'' (example_request ''GET'' ''/v3/p1/servers'')
     (Some (example_response 200 [])) = Inl AttributeError"
  by code_simp

text \<open>
  Claim C5. With an instance id bound, the target's type is the collection type when the
  action is list or the resource a singleton, and the element type otherwise. Without an
  id the target is to be the service resource; \<open>_create_event\<close> calls
  \<open>_build_target_service_resource(request, res_spec)\<close>, whose parameters are
  \<open>(res_spec, req)\<close>, so that \<open>type_uri\<close> is read from the request and the call raises
  \<open>AttributeError\<close>. Here the request is \<open>GET /v2/p1/servers\<close> on the grammar with the
  one resource \<open>servers\<close>: the path resolves to the resource, no id is bound, the action is
  list.
\<close>

theorem create_event_raises_without_id:
  "get_action (example_spec []) None (example_request ''GET'' ''/v2/p1/servers'') None
     = Inr (Some ACTION_LIST) \<and>
   build_target_service_resource (example_middleware [])
     (RequestObj (example_request ''GET'' ''/v2/p1/servers'')) (NodeObj (example_spec []))
     = Inl AttributeError \<and>
   create_event (example_middleware []) ''e1'' (example_request ''GET'' ''/v2/p1/servers'')
     (Some (example_response 200 [])) = Inl AttributeError"
  by code_simp

lemma target_type_with_id:
  assumes "priv_create_event self fresh (ResourceSpec t e s ca ch) rid req resp sfx
             = Inr (Some ev)"
    and "truthy rid"
  shows "ev_target ev =
           \<lparr>rsrc_id = id_value rid,
            rsrc_typeURI = (if ev_action ev = ACTION_LIST \<or> s then Some t else e),
            rsrc_name = JNull, rsrc_addresses = []\<rparr>"
  using assms
  by (auto simp: priv_create_event_def Let_def attr_singleton_def attr_type_uri_def
      attr_el_type_uri_def split: sum.splits option.splits if_split_asm)

lemma target_service_resource_as_declared:
  "build_target_service_resource self (NodeObj (ResourceSpec t e s ca ch)) (RequestObj req)
     = Inr \<lparr>rsrc_id = JStr (service_name self), rsrc_typeURI = Some (''service/'' @ t),
            rsrc_name = JNull, rsrc_addresses = [req_path_url req]\<rparr>"
  by (simp add: build_target_service_resource_def obj_type_uri_def obj_path_url_def
      attr_type_uri_def add_address_def)

subsection \<open>\<open>_build_event\<close> at the end of the path and before it\<close>

lemma build_event_at_end:
  "build_event self fresh res_node res_id res_parent_id req resp path (- 1) =
     (case priv_create_event self fresh res_node (py_or res_id res_parent_id) req resp None of
        Inl e \<Rightarrow> Inl e
      | Inr ev \<Rightarrow>
          if req_method req = ''POST'' then
            (case resp of
               None \<Rightarrow> Inr ev
             | Some r \<Rightarrow>
                 (case resp_json r of
                    Inl e \<Rightarrow> Inl e
                  | Inr payload \<Rightarrow>
                      if payload \<noteq> [] then
                        (let name = (if py_get payload ''name'' = JNull
                                     then py_get payload ''displayName''
                                     else py_get payload ''name'')
                         in case attr_type_uri res_node of
                              Inl e \<Rightarrow> Inl e
                            | Inr t \<Rightarrow>
                                (case ev of
                                   None \<Rightarrow> Inl AttributeError
                                 | Some ev' \<Rightarrow>
                                     Inr (Some (ev'\<lparr>ev_target :=
                                       \<lparr>rsrc_id = py_get payload ''id'', rsrc_typeURI = Some t,
                                        rsrc_name = name, rsrc_addresses = []\<rparr>\<rparr>))))
                      else Inr ev))
          else Inr ev)"
  by (subst build_event.simps) simp

lemma build_event_step:
  "cursor \<noteq> - 1 \<Longrightarrow>
   build_event self fresh res_node res_id res_parent_id req resp path cursor =
     (let next_pos = py_find path CHR ''/'' (cursor + 1);
          token = (if next_pos \<noteq> - 1 then py_slice path (cursor + 1) next_pos
                   else py_slice_from path (cursor + 1))
      in case res_node of
           Dict d \<Rightarrow>
             (case map_of d token of
                None \<Rightarrow> Inr None
              | Some found \<Rightarrow> build_event self fresh found None None req resp path next_pos)
         | ResourceSpec _ _ single _ child_specs \<Rightarrow>
             if truthy res_id \<or> single then
               (case map_of child_specs token of
                  Some child_res \<Rightarrow>
                    if node_truthy child_res then
                      build_event self fresh child_res None (py_or res_id res_parent_id)
                        req resp path next_pos
                    else if next_pos = - 1 then
                      priv_create_event self fresh res_node (py_or res_id res_parent_id)
                        req resp (Some token)
                    else Inr None
                | None \<Rightarrow>
                    if next_pos = - 1 then
                      priv_create_event self fresh res_node (py_or res_id res_parent_id)
                        req resp (Some token)
                    else Inr None)
             else build_event self fresh res_node (Some token) res_parent_id
                    req resp path next_pos)"
  by (subst build_event.simps) simp

subsection \<open>The target of a POST at the end of the path\<close>

lemma priv_create_event_on_dict:
  "priv_create_event self fresh (Dict d) rid req resp None \<noteq> Inr (Some ev)"
  by (auto simp: priv_create_event_def get_action_def Let_def attr_singleton_def
      build_target_service_resource_def obj_type_uri_def
      ACTION_CREATE_def ACTION_READ_def ACTION_UPDATE_def ACTION_DELETE_def ACTION_LIST_def
      split: sum.splits option.splits if_split_asm)

definition example_create_event :: event where
  "example_create_event =
     example_read_event\<lparr>ev_action := ''create'',
       ev_reason := Some \<lparr>reasonType = ''HTTP'', reasonCode = ''201''\<rparr>\<rparr>"

lemma example_create:
  "priv_create_event (example_middleware []) ''e1'' (example_spec []) (Some ''abc123'')
      (example_request ''POST'' ''/v2/p1/servers/abc123'')
      (Some (example_response 201 body)) None
   = Inr (Some example_create_event)"
  by (simp add: priv_create_event_def get_action_def example_request_def example_spec_def
      example_response_def example_create_event_def example_read_event_def truthy_def
      ACTION_CREATE_def ACTION_LIST_def attr_singleton_def attr_el_type_uri_def
      ACCOUNT_USER_def UNKNOWN_def project_or_domain_id_def env_get_def id_value_def
      OUTCOME_SUCCESS_def EVENTTYPE_ACTIVITY_def)
    code_simp

text \<open>
  Claim C6, as amended. For a POST request that ends at the end of the path, where
  \<open>_create_event\<close> has built the event \<open>ev0\<close> and the response carries the JSON body
  \<open>payload\<close>: the node is a resource with a type URI \<open>t\<close>, and \<open>_build_event\<close> returns \<open>ev0\<close>
  with its target replaced if and only if the body is not empty. The new target has the
  body's \<open>id\<close>, the resource's collection type URI, and as its name the body's \<open>name\<close> or,
  when that is absent or null, the body's \<open>displayName\<close> (absent when both are); it
  replaces the target that carried the id bound on the path.
\<close>

theorem post_target_from_response:
  assumes "req_method req = ''POST''"
    and "resp = Some r" and "resp_json r = Inr payload"
    and "priv_create_event self fresh n (py_or rid pid) req resp None = Inr (Some ev0)"
  shows "\<exists>t. attr_type_uri n = Inr t \<and>
           build_event self fresh n rid pid req resp path (- 1) =
             Inr (Some (if payload \<noteq> [] then
                          ev0\<lparr>ev_target :=
                                \<lparr>rsrc_id = py_get payload ''id'', rsrc_typeURI = Some t,
                                 rsrc_name = (if py_get payload ''name'' \<noteq> JNull
                                              then py_get payload ''name''
                                              else py_get payload ''displayName''),
                                 rsrc_addresses = []\<rparr>\<rparr>
                        else ev0))"
proof (cases n)
  case (Dict d)
  with assms(4) priv_create_event_on_dict show ?thesis by blast
next
  case (ResourceSpec t e s ca ch)
  then have "attr_type_uri n = Inr t" by (simp add: attr_type_uri_def)
  then show ?thesis
    unfolding build_event_at_end using assms by (simp add: Let_def)
qed

theorem post_target_from_response_witness:
  "build_event (example_middleware []) ''e1'' (example_spec []) (Some ''abc123'') None
      (example_request ''POST'' ''/v2/p1/servers/abc123'')
      (Some (example_response 201 [(''id'', JStr ''x1''), (''name'', JStr ''foo'')]))
      ''/servers/abc123'' (- 1)
   = Inr (Some (example_create_event\<lparr>ev_target :=
        \<lparr>rsrc_id = JStr ''x1'', rsrc_typeURI = Some ''compute/servers'',
         rsrc_name = JStr ''foo'', rsrc_addresses = []\<rparr>\<rparr>))"
proof -
  have m: "req_method (example_request ''POST'' ''/v2/p1/servers/abc123'') = ''POST''"
    by (simp add: example_request_def)
  have j: "resp_json (example_response 201 [(''id'', JStr ''x1''), (''name'', JStr ''foo'')])
      = Inr [(''id'', JStr ''x1''), (''name'', JStr ''foo'')]"
    by (simp add: example_response_def)
  have c: "priv_create_event (example_middleware []) ''e1'' (example_spec [])
      (py_or (Some ''abc123'') None) (example_request ''POST'' ''/v2/p1/servers/abc123'')
      (Some (example_response 201 [(''id'', JStr ''x1''), (''name'', JStr ''foo'')])) None
   = Inr (Some example_create_event)"
    by (simp add: py_or_def truthy_def example_create)
  from post_target_from_response[OF m refl j c, of "''/servers/abc123''"]
  show ?thesis
    by (simp add: example_spec_def attr_type_uri_def py_get_def)
qed

text \<open>
  Claim C6 as stated fails in its ``only if'': the body \<open>{"id": "x1"}\<close> has neither a
  \<open>name\<close> nor a \<open>displayName\<close>, and the target built from the path (id \<open>abc123\<close>, the element
  type) is still replaced by one with the body's id, the collection type and no name.
\<close>

theorem post_target_replaced_without_name:
  "map_of [(''id'', JStr ''x1'')] ''name'' = None \<and>
   map_of [(''id'', JStr ''x1'')] ''displayName'' = None \<and>
   ev_target example_create_event
     = \<lparr>rsrc_id = JStr ''abc123'', rsrc_typeURI = Some ''compute/servers/server'',
        rsrc_name = JNull, rsrc_addresses = []\<rparr> \<and>
   create_event (example_middleware []) ''e1''
      (example_request ''POST'' ''/v2/p1/servers/abc123'')
      (Some (example_response 201 [(''id'', JStr ''x1'')]))
   = Inr (Some (example_create_event\<lparr>ev_target :=
        \<lparr>rsrc_id = JStr ''x1'', rsrc_typeURI = Some ''compute/servers'',
         rsrc_name = JNull, rsrc_addresses = []\<rparr>\<rparr>))"
  by code_simp

subsection \<open>Hierarchical names\<close>

text \<open>\<open>'/'.join(segments)\<close>, and the dict \<open>{s1: {s2: {... {sn: object}}}}\<close>.\<close>

fun join_path :: "string list \<Rightarrow> string" where
  "join_path [] = []"
| "join_path [k] = k"
| "join_path (k # ks) = k @ ''/'' @ join_path ks"

fun nested :: "string list \<Rightarrow> node \<Rightarrow> (string \<times> node) list" where
  "nested [] object = []"
| "nested [k] object = [(k, object)]"
| "nested (k # ks) object = [(k, Dict (nested ks object))]"

text \<open>\<open>dct[s1][s2]...[sn]\<close> through plain dicts.\<close>

fun lookup_path :: "(string \<times> node) list \<Rightarrow> string list \<Rightarrow> node option" where
  "lookup_path dct [] = None"
| "lookup_path dct [k] = map_of dct k"
| "lookup_path dct (k # ks) =
     (case map_of dct k of Some (Dict sub) \<Rightarrow> lookup_path sub ks | _ \<Rightarrow> None)"

lemma find_from_absent: "c \<notin> set xs \<Longrightarrow> find_from c xs i = - 1"
  by (induction xs arbitrary: i) auto

lemma find_from_first:
  "c \<notin> set xs \<Longrightarrow> find_from c (xs @ c # ys) i = int i + int (length xs)"
  by (induction xs arbitrary: i) auto

lemma py_find_absent: "c \<notin> set s \<Longrightarrow> py_find s c 0 = - 1"
  by (simp add: py_find_def find_from_absent)

lemma py_find_first: "c \<notin> set k \<Longrightarrow> py_find (k @ c # rest) c 0 = int (length k)"
  by (simp add: py_find_def find_from_first)

lemma put_hier_leaf:
  "CHR ''/'' \<notin> set k \<Longrightarrow> put_hier dct k object = Inr (AList.update k object dct)"
  by (subst put_hier.simps) (simp add: py_find_absent)

lemma put_hier_segment:
  assumes "CHR ''/'' \<notin> set k"
  shows "put_hier dct (k @ CHR ''/'' # rest) object =
     (let dct1 = (if map_of dct k = None then AList.update k (Dict []) dct else dct)
      in case map_of dct1 k of
           Some (Dict sub) \<Rightarrow>
             (case put_hier sub rest object of
                Inl e \<Rightarrow> Inl e
              | Inr sub' \<Rightarrow> Inr (AList.update k (Dict sub') dct1))
         | _ \<Rightarrow> Inl TypeError)"
  using assms
  by (subst put_hier.simps)
    (simp add: py_find_first py_slice_def py_slice_from_def Let_def nat_add_distrib)

lemma put_hier_nested:
  assumes "segs \<noteq> []" and "\<forall>k \<in> set segs. CHR ''/'' \<notin> set k"
  shows "put_hier [] (join_path segs) object = Inr (nested segs object)"
  using assms
proof (induction segs rule: join_path.induct)
  case 1
  then show ?case by simp
next
  case (2 k)
  then show ?case by (simp add: put_hier_leaf)
next
  case (3 k v va)
  then show ?case
    by (simp add: put_hier_segment Let_def AList.update_conv')
qed


text \<open>
  The body of the loop of \<open>_parse_resources\<close> under names of its own: the children that an
  entry configures, and the \<open>ResourceSpec\<close> that the loop builds for the entry \<open>name: s\<close>
  once its children are compiled to \<open>ch\<close>.
\<close>

definition entry_children :: "raw_spec option \<Rightarrow> (string \<times> raw_spec option) list" where
  "entry_children s =
     (case cfg_children (case s of None \<Rightarrow> RawSpec None None None None | Some d \<Rightarrow> d) of
        Some c \<Rightarrow> c
      | None \<Rightarrow> [])"

definition entry_spec ::
  "string \<Rightarrow> string option \<Rightarrow> string \<Rightarrow> raw_spec option \<Rightarrow> (string \<times> node) list \<Rightarrow> node" where
  "entry_spec svc parent name s ch =
     (let spec = (case s of None \<Rightarrow> RawSpec None None None None | Some d \<Rightarrow> d);
          pfx = (case parent of
                   None \<Rightarrow> svc
                 | Some p \<Rightarrow> if p \<noteq> [] then p else svc);
          singleton = (case cfg_singleton spec of Some b \<Rightarrow> b | None \<Rightarrow> False);
          type_uri = (case cfg_type_uri spec of Some t \<Rightarrow> t | None \<Rightarrow> pfx @ ''/'' @ name);
          el_type_uri = (if \<not> singleton then Some (type_uri @ ''/'' @ butlast name) else None)
      in ResourceSpec type_uri el_type_uri singleton
           (case cfg_custom_actions spec of Some ca \<Rightarrow> ca | None \<Rightarrow> []) ch)"


lemma children_entry_spec [simp]: "children (entry_spec svc parent name s ch) = ch"
  by (simp add: entry_spec_def Let_def)

lemma parse_resources_loop_entry:
  "parse_resources_loop svc parent ((name, s) # rest) result =
     (case parse_resources svc (entry_children s)
             (Some (type_uri (entry_spec svc parent name s []))) of
        Inl e \<Rightarrow> Inl e
      | Inr ch \<Rightarrow>
          (case put_hier result name (entry_spec svc parent name s ch) of
             Inl e \<Rightarrow> Inl e
           | Inr result' \<Rightarrow> parse_resources_loop svc parent rest result'))"
  by (simp add: parse_resources_def entry_spec_def entry_children_def Let_def
      cong: sum.case_cong)

lemma parse_resources_loop_append:
  "parse_resources_loop svc parent (pre @ rest) result =
     (case parse_resources_loop svc parent pre result of
        Inl e \<Rightarrow> Inl e
      | Inr r \<Rightarrow> parse_resources_loop svc parent rest r)"
proof (induction pre arbitrary: result)
  case Nil
  show ?case by simp
next
  case (Cons x pre)
  obtain n s where x: "x = (n, s)" by (cases x)
  show ?case
    unfolding x append_Cons parse_resources_loop_entry
    by (simp add: Cons.IH split: sum.splits)
qed

text \<open>The first segment of a hierarchical name: the key that \<open>_put_hier\<close> writes.\<close>

definition first_segment :: "string \<Rightarrow> string" where
  "first_segment name = takeWhile (\<lambda>c. c \<noteq> CHR ''/'') name"

lemma find_from_ge: "find_from c xs i \<noteq> - 1 \<Longrightarrow> int i \<le> find_from c xs i"
proof (induction xs arbitrary: i)
  case Nil
  then show ?case by simp
next
  case (Cons x xs)
  show ?case
  proof (cases "x = c")
    case True
    then show ?thesis by simp
  next
    case False
    with Cons.prems have "find_from c xs (Suc i) \<noteq> - 1" by simp
    from Cons.IH[OF this] False show ?thesis by simp
  qed
qed

lemma find_from_takeWhile:
  "find_from c xs i \<noteq> - 1 \<Longrightarrow>
     take (nat (find_from c xs i) - i) xs = takeWhile (\<lambda>x. x \<noteq> c) xs"
proof (induction xs arbitrary: i)
  case Nil
  then show ?case by simp
next
  case (Cons x xs)
  show ?case
  proof (cases "x = c")
    case True
    then show ?thesis by simp
  next
    case False
    with Cons.prems have ne: "find_from c xs (Suc i) \<noteq> - 1" by simp
    from find_from_ge[OF ne]
    have "nat (find_from c xs (Suc i)) - i = Suc (nat (find_from c xs (Suc i)) - Suc i)"
      by linarith
    with False Cons.IH[OF ne] show ?thesis by simp
  qed
qed

lemma find_from_none: "find_from c xs i = - 1 \<Longrightarrow> c \<notin> set xs"
  by (induction xs arbitrary: i) (auto split: if_split_asm)

lemma first_segment_no_slash: "py_find name CHR ''/'' 0 < 0 \<Longrightarrow> first_segment name = name"
proof -
  assume a: "py_find name CHR ''/'' 0 < 0"
  with find_from_ge[of "CHR ''/''" name 0] have "find_from CHR ''/'' name 0 = - 1"
    by (auto simp: py_find_def)
  then have "CHR ''/'' \<notin> set name"
    by (rule find_from_none)
  then show ?thesis
    by (auto simp: first_segment_def)
qed

lemma first_segment_slash:
  "0 \<le> py_find name CHR ''/'' 0 \<Longrightarrow>
     py_slice name 0 (py_find name CHR ''/'' 0) = first_segment name"
  using find_from_takeWhile[of "CHR ''/''" name 0]
  by (simp add: py_find_def py_slice_def first_segment_def)

lemma put_hier_frame:
  assumes "put_hier dct name object = Inr dct'" and "k \<noteq> first_segment name"
  shows "map_of dct' k = map_of dct k"
proof (cases "0 \<le> py_find name CHR ''/'' 0")
  case True
  with assms show ?thesis
    by (subst (asm) put_hier.simps)
      (auto simp: Let_def first_segment_slash AList.update_conv'
        split: option.splits node.splits sum.splits if_split_asm)
next
  case False
  with assms show ?thesis
    by (subst (asm) put_hier.simps)
      (auto simp: first_segment_no_slash AList.update_conv')
qed

lemma lookup_path_cong:
  "map_of dct k = map_of dct' k \<Longrightarrow> lookup_path dct (k # ks) = lookup_path dct' (k # ks)"
  by (cases ks) simp_all

lemma put_hier_lookup:
  assumes "segs \<noteq> []" and "\<forall>k \<in> set segs. CHR ''/'' \<notin> set k"
    and "put_hier dct (join_path segs) object = Inr dct'"
  shows "lookup_path dct' segs = Some object"
  using assms
proof (induction segs arbitrary: dct dct' rule: join_path.induct)
  case 1
  then show ?case by simp
next
  case (2 k)
  then show ?case by (auto simp: put_hier_leaf AList.update_conv')
next
  case (3 k v va)
  from "3.prems" have k: "CHR ''/'' \<notin> set k" by simp
  from "3.prems"(3) show ?case
    using "3.IH" "3.prems"(2)
    by (auto simp: put_hier_segment[OF k] Let_def AList.update_conv'
        split: option.splits node.splits sum.splits if_split_asm)
qed

lemma parse_resources_loop_frame:
  assumes "parse_resources_loop svc parent rest result = Inr g"
    and "\<forall>(n, s) \<in> set rest. first_segment n \<noteq> k"
  shows "map_of g k = map_of result k"
  using assms
proof (induction rest arbitrary: result)
  case Nil
  then show ?case by simp
next
  case (Cons x rest)
  obtain n s where x: "x = (n, s)" by (cases x)
  from Cons.prems(1) obtain ch r where
    put: "put_hier result n (entry_spec svc parent n s ch) = Inr r" and
    loop: "parse_resources_loop svc parent rest r = Inr g"
    unfolding x parse_resources_loop_entry by (auto split: sum.splits)
  from Cons.prems(2) have "k \<noteq> first_segment n" and "\<forall>(n, s) \<in> set rest. first_segment n \<noteq> k"
    by (auto simp: x)
  with Cons.IH[OF loop] put_hier_frame[OF put] show ?case by simp
qed

text \<open>
  Claim C4, as amended. For a configuration whose one key is the hierarchical name
  \<open>s1/.../sn\<close> (segments without \<open>/\<close>), \<open>_parse_resources\<close> returns the plain nested dict
  \<open>{s1: {... {sn: S}}}\<close>, where \<open>S\<close> is the \<open>ResourceSpec\<close> compiled from the entry under its
  whole name: without settings of its own, \<open>S\<close> has as type URI the prefix, \<open>/\<close> and the
  whole name, and as element type URI its type URI, \<open>/\<close> and the whole name without its last
  character; its children are the entry's children compiled under the type URI of \<open>S\<close>. The
  levels above \<open>S\<close> are dicts, not resources. In a configuration with more keys that
  compiles, \<open>S\<close> stands at \<open>result[s1]...[sn]\<close> when no key that the loop reaches later has
  the first segment \<open>s1\<close>.
\<close>

theorem hierarchical_key_nests_compiled_spec:
  assumes "segs \<noteq> []" and "\<forall>k \<in> set segs. CHR ''/'' \<notin> set k"
  shows "parse_resources svc [(join_path segs, s)] parent =
           (case parse_resources svc (entry_children s)
                   (Some (type_uri (entry_spec svc parent (join_path segs) s []))) of
              Inl err \<Rightarrow> Inl err
            | Inr ch \<Rightarrow> Inr (nested segs (entry_spec svc parent (join_path segs) s ch))) \<and>
         entry_spec svc None (join_path segs) None ch =
           ResourceSpec (svc @ ''/'' @ join_path segs)
             (Some (svc @ ''/'' @ join_path segs @ ''/'' @ butlast (join_path segs)))
             False [] ch \<and>
         (\<forall>pre post g.
            parse_resources svc (pre @ (join_path segs, s) # post) parent = Inr g \<and>
            (\<forall>(n, x) \<in> set post. first_segment n \<noteq> hd segs) \<longrightarrow>
            (\<exists>ch. parse_resources svc (entry_children s)
                     (Some (type_uri (entry_spec svc parent (join_path segs) s []))) = Inr ch \<and>
                  lookup_path g segs
                    = Some (entry_spec svc parent (join_path segs) s ch)))"
proof (intro conjI allI impI)
  have "parse_resources svc [(join_path segs, s)] parent
      = parse_resources_loop svc parent [(join_path segs, s)] []"
    by (simp only: parse_resources_def)
  also have "\<dots> = (case parse_resources svc (entry_children s)
                   (Some (type_uri (entry_spec svc parent (join_path segs) s []))) of
              Inl err \<Rightarrow> Inl err
            | Inr ch \<Rightarrow> Inr (nested segs (entry_spec svc parent (join_path segs) s ch)))"
    by (simp only: parse_resources_loop_entry put_hier_nested[OF assms] sum.case
        parse_resources_loop.simps cong: sum.case_cong)
  finally show "parse_resources svc [(join_path segs, s)] parent =
           (case parse_resources svc (entry_children s)
                   (Some (type_uri (entry_spec svc parent (join_path segs) s []))) of
              Inl err \<Rightarrow> Inl err
            | Inr ch \<Rightarrow> Inr (nested segs (entry_spec svc parent (join_path segs) s ch)))" .
next
  show "entry_spec svc None (join_path segs) None ch =
           ResourceSpec (svc @ ''/'' @ join_path segs)
             (Some (svc @ ''/'' @ join_path segs @ ''/'' @ butlast (join_path segs)))
             False [] ch"
    by (simp add: entry_spec_def)
next
  fix pre post g
  assume a: "parse_resources svc (pre @ (join_path segs, s) # post) parent = Inr g \<and>
            (\<forall>(n, x) \<in> set post. first_segment n \<noteq> hd segs)"
  let ?name = "join_path segs"
  let ?children = "parse_resources svc (entry_children s)
           (Some (type_uri (entry_spec svc parent ?name s [])))"
  from a have "parse_resources_loop svc parent (pre @ (?name, s) # post) [] = Inr g"
    by (simp only: parse_resources_def)
  then obtain r1 where
    r1: "parse_resources_loop svc parent ((?name, s) # post) r1 = Inr g"
    by (simp only: parse_resources_loop_append split: sum.splits) auto
  then obtain ch r2 where
    ch: "?children = Inr ch" and
    put: "put_hier r1 ?name (entry_spec svc parent ?name s ch) = Inr r2" and
    loop: "parse_resources_loop svc parent post r2 = Inr g"
    unfolding parse_resources_loop_entry
    by (cases ?children; cases "put_hier r1 ?name
          (entry_spec svc parent ?name s (projr ?children))") auto
  from a have "\<forall>(n, x) \<in> set post. first_segment n \<noteq> hd segs" by simp
  from parse_resources_loop_frame[OF loop this]
  have "map_of g (hd segs) = map_of r2 (hd segs)" .
  with assms(1) have "lookup_path g segs = lookup_path r2 segs"
    by (cases segs) (auto intro: lookup_path_cong)
  with put_hier_lookup[OF assms put] ch
  show "\<exists>ch. ?children = Inr ch \<and>
              lookup_path g segs = Some (entry_spec svc parent ?name s ch)"
    by auto
qed


theorem hierarchical_key_nests_compiled_spec_witness:
  "parse_resources ''compute'' [(''a/b/servers'', None)] None =
     Inr [(''a'', Dict [(''b'', Dict [(''servers'',
            ResourceSpec ''compute/a/b/servers'' (Some ''compute/a/b/servers/a/b/server'')
              False [] [])])])]"
proof -
  have segs: "[''a'', ''b'', ''servers''] \<noteq> []"
    "\<forall>k \<in> set [''a'', ''b'', ''servers'']. CHR ''/'' \<notin> set k"
    by simp_all
  have children: "parse_resources ''compute'' (entry_children None) p = Inr []" for p
    by (simp add: entry_children_def parse_resources_def)
  from hierarchical_key_nests_compiled_spec[OF segs, of "''compute''" None None "[]"]
  show ?thesis
    by (simp add: children)
qed

text \<open>
  Claim C4 as stated fails: the key \<open>a/b/c\<close> does not compile to what the configuration
  nested by hand compiles to, neither with the nesting written through \<open>children\<close> nor with
  \<open>{a: {b: {c: ...}}}\<close> written literally (where \<open>b\<close> is a key of the resource \<open>a\<close> that
  \<open>_parse_resources\<close> does not read, which leaves \<open>a\<close> without settings).
\<close>

theorem hierarchical_key_differs_from_nested_configuration:
  "parse_resources ''compute'' [(''a/b/c'', None)] None
     = Inr [(''a'', Dict [(''b'', Dict [(''c'',
          ResourceSpec ''compute/a/b/c'' (Some ''compute/a/b/c/a/b/'') False [] [])])])] \<and>
   parse_resources ''compute''
     [(''a'', Some (RawSpec None None None (Some
        [(''b'', Some (RawSpec None None None (Some [(''c'', None)])))])))] None
     = Inr [(''a'', ResourceSpec ''compute/a'' (Some ''compute/a/'') False []
          [(''b'', ResourceSpec ''compute/a/b'' (Some ''compute/a/b/'') False []
             [(''c'', ResourceSpec ''compute/a/b/c'' (Some ''compute/a/b/c/'') False [] [])])])] \<and>
   parse_resources ''compute'' [(''a'', Some (RawSpec None None None None))] None
     = Inr [(''a'', ResourceSpec ''compute/a'' (Some ''compute/a/'') False [] [])] \<and>
   parse_resources ''compute'' [(''a/b/c'', None)] None
     \<noteq> parse_resources ''compute''
         [(''a'', Some (RawSpec None None None (Some
            [(''b'', Some (RawSpec None None None (Some [(''c'', None)])))])))] None \<and>
   parse_resources ''compute'' [(''a/b/c'', None)] None
     \<noteq> parse_resources ''compute'' [(''a'', Some (RawSpec None None None None))] None"
  by code_simp

subsection \<open>The fields of a compiled resource\<close>














lemma lookup_path_nonempty: "lookup_path dct p = Some n \<Longrightarrow> p \<noteq> []"
  by auto

















end
